theory Spec2Isabelle
  imports Main "HOL-Library.Word"
begin

section \<open>Bytes, errors and outcomes\<close>

text \<open>
  A Go \<open>[]byte\<close> is a list of 8-bit words; a Go \<open>string\<close> is its byte sequence too
  (\<open>[]byte(s)\<close> is the identity on it and \<open>+\<close> is concatenation). The capacity of a
  slice is taken to be its length.
\<close>

type_synonym bytes = "8 word list"

text \<open>A Go \<open>error\<close> value, as the collaborating packages return it: an opaque message.\<close>

datatype error = Error string

text \<open>
  The outcome of a call that can also end in a run-time panic (a slice expression out of
  range, a failed type assertion, a collaborator that dereferences a nil pointer).
\<close>

datatype 'a outcome = Ok 'a | Err error | Panic

section \<open>Comparing two hashes: \<open>chapter5/hap\<close> and package \<open>hash\<close>\<close>

text \<open>\<open>subtle.ConstantTimeByteEq(x, y)\<close>: 1 when the bytes are equal, 0 otherwise.\<close>

definition ConstantTimeByteEq :: "8 word \<Rightarrow> 8 word \<Rightarrow> int" where
  "ConstantTimeByteEq x y = (if x = y then 1 else 0)"

text \<open>
  The loop \<open>for i := 0; i < size; i++ { matched += ConstantTimeByteEq(a[i], b[i]) }\<close>,
  which \<open>matchHash\<close> and \<open>MatchPassword\<close> both run with \<open>size\<close> (here \<open>sz\<close>) the smaller of the two
  lengths, so that every index is in range. The state of the loop is \<open>i\<close> and \<open>matched\<close>.
\<close>

function match_loop :: "bytes \<Rightarrow> bytes \<Rightarrow> nat \<Rightarrow> nat \<Rightarrow> int \<Rightarrow> int" where
  "match_loop a b sz i matched =
     (if i < sz
      then match_loop a b sz (Suc i) (matched + ConstantTimeByteEq (a ! i) (b ! i))
      else matched)"
  by pat_completeness auto
termination
  by (relation "measure (\<lambda>(a, b, sz, i, matched). sz - i)") auto

declare match_loop.simps [simp del]





text \<open>Package \<open>hash\<close>: the password key and its check.\<close>

record PasswordKey =
  Salt :: bytes
  Key :: bytes

definition IterationCount :: int where "IterationCount = 16384"
definition KeySize :: int where "KeySize = 32"

text \<open>
  \<open>pbkdf2.Key(password, salt, iter, keyLen, h)\<close> is the parameter \<open>pbkdf2_Key\<close>; the hash
  constructor \<open>DefaultAlgo.New\<close> is declared in a file that is not part of the sources, so
  it is taken as fixed inside the parameter.
\<close>

definition DeriveKeyWithSalt ::
  "(bytes \<Rightarrow> bytes \<Rightarrow> int \<Rightarrow> int \<Rightarrow> bytes) \<Rightarrow> bytes \<Rightarrow> bytes \<Rightarrow> PasswordKey" where
  "DeriveKeyWithSalt pbkdf2_Key password salt =
     (let key = pbkdf2_Key password salt IterationCount KeySize
      in \<lparr>Salt = salt, Key = key\<rparr>)"

definition MatchPassword ::
  "(bytes \<Rightarrow> bytes \<Rightarrow> int \<Rightarrow> int \<Rightarrow> bytes) \<Rightarrow> bytes \<Rightarrow> PasswordKey \<Rightarrow> bool" where
  "MatchPassword pbkdf2_Key password pk =
     (let new_key = DeriveKeyWithSalt pbkdf2_Key password (Salt pk);
          sz = length (Key new_key);
          sz = (if sz > length (Key pk) then length (Key pk) else sz);
          matched = match_loop (Key new_key) (Key pk) sz 0 0;
          passed = (matched = int sz)
      in if length (Key new_key) \<noteq> length (Key pk) then False else passed)"

section \<open>Package \<open>forwardsec\<close>: the collaborating packages\<close>

text \<open>
  \<open>forwardsec\<close> is glue over four packages whose code is not part of the sources:
  \<open>dhkam\<close> (key agreement), \<open>pks\<close> (RSA signatures), \<open>authsym\<close> (the authenticated
  cipher) and \<open>encoding/asn1\<close>. Their functions are the fields of a record that every
  operation takes as its first argument. \<open>'dk\<close> is a \<open>dhkam.PrivateKey\<close>, \<open>'dp\<close> a
  \<open>dhkam.PublicKey\<close>, \<open>'ik\<close> and \<open>'ip\<close> an RSA private and public key.

  \<open>'w\<close> is the state of the random sources: the package variable \<open>PRNG\<close>, which
  \<open>forwardsec\<close> hands to \<open>GenerateKey\<close> and \<open>SharedKey\<close>, and the sources that
  \<open>pks.Sign\<close> and \<open>authsym.Encrypt\<close> read themselves. A call that draws from them
  returns the state it leaves.

  A Go call returning \<open>(v, err)\<close> is a sum: \<open>Inl err\<close> when \<open>err\<close> is not nil, \<open>Inr v\<close>
  otherwise. \<open>SharedKey\<close> receives two pointers that \<open>forwardsec\<close> reads from fields of
  the session (nil is \<open>None\<close>), so its result is an outcome: what it does with a nil
  pointer is its own business. Both \<open>signedDHKey\<close> and the envelope of \<open>Encrypt\<close> are
  structs of two byte slices, which \<open>asn1.Marshal\<close> encodes alike; the pair is
  \<open>(Public, Signature)\<close> for the one and \<open>(Pub, CT)\<close> for the other.
\<close>

record ('w, 'dk, 'dp, 'ik, 'ip) collab =
  dh_GenerateKey :: "'w \<Rightarrow> (error + 'dk) \<times> 'w"
  dh_Export :: "'dk \<Rightarrow> bytes"
  dh_ImportPublic :: "bytes \<Rightarrow> error + 'dp"
  dh_SharedKey :: "'w \<Rightarrow> 'dk option \<Rightarrow> 'dp option \<Rightarrow> nat \<Rightarrow> bytes outcome \<times> 'w"
  pks_Sign :: "'w \<Rightarrow> 'ik \<Rightarrow> bytes \<Rightarrow> (error + bytes) \<times> 'w"
  pks_Verify :: "'ip \<Rightarrow> bytes \<Rightarrow> bytes \<Rightarrow> error option"
  authsym_Encrypt :: "'w \<Rightarrow> bytes \<Rightarrow> bytes \<Rightarrow> bytes \<Rightarrow> (error + bytes) \<times> 'w"
  authsym_Decrypt :: "bytes \<Rightarrow> bytes \<Rightarrow> bytes \<Rightarrow> error + bytes"
  authsym_SymKeyLen :: nat
  asn1_Marshal :: "bytes \<times> bytes \<Rightarrow> error + bytes"
  asn1_Unmarshal :: "bytes \<Rightarrow> error + bytes \<times> bytes"

definition sharedKeyLen :: nat where "sharedKeyLen = 48"

text \<open>The slice expressions \<open>s[:n]\<close> and \<open>s[n:]\<close>; out of range they panic (\<open>None\<close>).\<close>

definition slice_to :: "bytes \<Rightarrow> nat \<Rightarrow> bytes option" where
  "slice_to s n = (if n \<le> length s then Some (take n s) else None)"

definition slice_from :: "bytes \<Rightarrow> nat \<Rightarrow> bytes option" where
  "slice_from s n = (if n \<le> length s then Some (drop n s) else None)"

section \<open>Package \<open>forwardsec\<close>: identities and sessions\<close>

text \<open>\<open>IdentityKey\<close>: its one field \<open>key\<close> is \<open>rsa_key\<close> here.\<close>

record 'ik IdentityKey =
  rsa_key :: 'ik

text \<open>
  What \<open>x509.ParsePKIXPublicKey\<close> returns in its \<open>interface{}\<close>: a pointer to an RSA,
  a DSA or an ECDSA public key.
\<close>

datatype 'ip pkix_key = RSA_PublicKey 'ip | DSA_PublicKey | ECDSA_PublicKey

text \<open>
  \<open>ImportPeerIdentity\<close>. The input is \<open>None\<close> for a nil slice; the result is
  \<open>Ok None\<close> when the function returns nil. \<open>cert.(*rsa.PublicKey)\<close> is a type
  assertion in its one-value form, which panics when the dynamic type is another one.
\<close>

definition ImportPeerIdentity ::
  "(bytes \<Rightarrow> error + 'ip pkix_key) \<Rightarrow> bytes option \<Rightarrow> 'ip option outcome" where
  "ImportPeerIdentity x509_ParsePKIXPublicKey inp =
     (case inp of
        None \<Rightarrow> Ok None
      | Some der \<Rightarrow>
          (case x509_ParsePKIXPublicKey der of
             Inl err \<Rightarrow> Ok None
           | Inr cert \<Rightarrow>
               (case cert of
                  RSA_PublicKey k \<Rightarrow> Ok (Some k)
                | DSA_PublicKey \<Rightarrow> Panic
                | ECDSA_PublicKey \<Rightarrow> Panic)))"

record ('dk, 'dp) SessionKey =
  key :: "'dk option"
  signedKey :: bytes
  peer :: "'dp option"

text \<open>\<open>new(SessionKey)\<close>: nil pointers and a nil slice.\<close>

definition new_SessionKey :: "('dk, 'dp) SessionKey" where
  "new_SessionKey = \<lparr>key = None, signedKey = [], peer = None\<rparr>"

text \<open>\<open>NewSessionKey\<close> returns a pointer to the session, or nil (\<open>None\<close>).\<close>

definition NewSessionKey ::
  "('w, 'dk, 'dp, 'ik, 'ip) collab \<Rightarrow> 'ik IdentityKey \<Rightarrow> 'w
     \<Rightarrow> ('dk, 'dp) SessionKey option \<times> 'w" where
  "NewSessionKey c idk w =
     (let skey = new_SessionKey in
      case dh_GenerateKey c w of
        (Inl err, w1) \<Rightarrow> (None, w1)
      | (Inr k, w1) \<Rightarrow>
          (let skey = skey\<lparr>key := Some k\<rparr>;
               sdhkey_Public = dh_Export c k
           in case pks_Sign c w1 (rsa_key idk) sdhkey_Public of
                (Inl err, w2) \<Rightarrow> (None, w2)
              | (Inr sdhkey_Signature, w2) \<Rightarrow>
                  (case asn1_Marshal c (sdhkey_Public, sdhkey_Signature) of
                     Inl err \<Rightarrow> (None, w2)
                   | Inr enc \<Rightarrow> (Some (skey\<lparr>signedKey := enc\<rparr>), w2))))"

text \<open>\<open>SessionKey.Public\<close>.\<close>

definition Public :: "('dk, 'dp) SessionKey \<Rightarrow> bytes" where
  "Public skey = signedKey skey"

text \<open>
  \<open>PeerSessionKey\<close> returns the session as it leaves it and the error (\<open>None\<close> is nil).
\<close>

definition PeerSessionKey ::
  "('w, 'dk, 'dp, 'ik, 'ip) collab \<Rightarrow> ('dk, 'dp) SessionKey \<Rightarrow> 'ip \<Rightarrow> bytes
     \<Rightarrow> ('dk, 'dp) SessionKey \<times> error option" where
  "PeerSessionKey c skey peerId session =
     (case asn1_Unmarshal c session of
        Inl err \<Rightarrow> (skey, Some err)
      | Inr (signedKey_Public, signedKey_Signature) \<Rightarrow>
          (case pks_Verify c peerId signedKey_Public signedKey_Signature of
             Some err \<Rightarrow> (skey, Some err)
           | None \<Rightarrow>
               (case dh_ImportPublic c signedKey_Public of
                  Inl err \<Rightarrow> (skey, Some err)
                | Inr pub \<Rightarrow> (skey\<lparr>peer := Some pub\<rparr>, None))))"

definition Decrypt ::
  "('w, 'dk, 'dp, 'ik, 'ip) collab \<Rightarrow> ('dk, 'dp) SessionKey \<Rightarrow> bytes \<Rightarrow> 'w
     \<Rightarrow> bytes outcome \<times> 'w" where
  "Decrypt c skey inp w =
     (case asn1_Unmarshal c inp of
        Inl err \<Rightarrow> (Err err, w)
      | Inr (ephem_Pub, ephem_CT) \<Rightarrow>
          (case dh_ImportPublic c ephem_Pub of
             Inl err \<Rightarrow> (Err err, w)
           | Inr pub \<Rightarrow>
               (case dh_SharedKey c w (key skey) (Some pub) sharedKeyLen of
                  (Err err, w1) \<Rightarrow> (Err err, w1)
                | (Panic, w1) \<Rightarrow> (Panic, w1)
                | (Ok shared, w1) \<Rightarrow>
                    (case slice_to shared (authsym_SymKeyLen c) of
                       None \<Rightarrow> (Panic, w1)
                     | Some symkey \<Rightarrow>
                         (case slice_from shared (authsym_SymKeyLen c) of
                            None \<Rightarrow> (Panic, w1)
                          | Some mackey \<Rightarrow>
                              (case authsym_Decrypt c symkey mackey ephem_CT of
                                 Inl err \<Rightarrow> (Err err, w1)
                               | Inr out \<Rightarrow> (Ok out, w1)))))))"

definition Encrypt ::
  "('w, 'dk, 'dp, 'ik, 'ip) collab \<Rightarrow> ('dk, 'dp) SessionKey \<Rightarrow> bytes \<Rightarrow> 'w
     \<Rightarrow> bytes outcome \<times> 'w" where
  "Encrypt c skey message w =
     (case dh_GenerateKey c w of
        (Inl err, w1) \<Rightarrow> (Err err, w1)
      | (Inr dhEphem, w1) \<Rightarrow>
          (case dh_SharedKey c w1 (Some dhEphem) (peer skey) sharedKeyLen of
             (Err err, w2) \<Rightarrow> (Err err, w2)
           | (Panic, w2) \<Rightarrow> (Panic, w2)
           | (Ok shared, w2) \<Rightarrow>
               (case slice_to shared (authsym_SymKeyLen c) of
                  None \<Rightarrow> (Panic, w2)
                | Some symkey \<Rightarrow>
                    (case slice_from shared (authsym_SymKeyLen c) of
                       None \<Rightarrow> (Panic, w2)
                     | Some mackey \<Rightarrow>
                         (case authsym_Encrypt c w2 symkey mackey message of
                            (Inl err, w3) \<Rightarrow> (Err err, w3)
                          | (Inr ephem_CT, w3) \<Rightarrow>
                              (case asn1_Marshal c (dh_Export c dhEphem, ephem_CT) of
                                 Inl err \<Rightarrow> (Err err, w3)
                               | Inr out \<Rightarrow> (Ok out, w3)))))))"

section \<open>What \<open>forwardsec\<close> expects of its collaborators\<close>

text \<open>
  The contracts that the round trip rests on. An encoded pair decodes to itself. An
  exported agreement key is accepted by \<open>ImportPublic\<close>. Key agreement: the secret that
  one private key derives with the other's imported public value is the secret that the
  other derives with the first's, whatever the random sources hold (\<open>SharedKey\<close> uses
  them for blinding only, and its result is a function of the two keys and the length).
  What the cipher encrypts under a pair of keys it decrypts under the same pair.
\<close>

definition asn1_roundtrip :: "('w, 'dk, 'dp, 'ik, 'ip) collab \<Rightarrow> bool" where
  "asn1_roundtrip c = (\<forall>x enc. asn1_Marshal c x = Inr enc \<longrightarrow> asn1_Unmarshal c enc = Inr x)"

definition dh_import_export :: "('w, 'dk, 'dp, 'ik, 'ip) collab \<Rightarrow> bool" where
  "dh_import_export c = (\<forall>k. \<exists>p. dh_ImportPublic c (dh_Export c k) = Inr p)"

definition dh_agreement :: "('w, 'dk, 'dp, 'ik, 'ip) collab \<Rightarrow> bool" where
  "dh_agreement c =
     (\<forall>a b pa pb w w' n s.
        dh_ImportPublic c (dh_Export c a) = Inr pa \<and>
        dh_ImportPublic c (dh_Export c b) = Inr pb \<and>
        fst (dh_SharedKey c w (Some a) (Some pb) n) = Ok s
        \<longrightarrow> fst (dh_SharedKey c w' (Some b) (Some pa) n) = Ok s)"

definition authsym_roundtrip :: "('w, 'dk, 'dp, 'ik, 'ip) collab \<Rightarrow> bool" where
  "authsym_roundtrip c =
     (\<forall>w symkey mackey m ct.
        fst (authsym_Encrypt c w symkey mackey m) = Inr ct
        \<longrightarrow> authsym_Decrypt c symkey mackey ct = Inr m)"

definition collab_contract :: "('w, 'dk, 'dp, 'ik, 'ip) collab \<Rightarrow> bool" where
  "collab_contract c =
     (asn1_roundtrip c \<and> dh_import_export c \<and> dh_agreement c \<and> authsym_roundtrip c)"

section \<open>A small instance of the collaborators\<close>

text \<open>
  An instance on which the operations can be run: Diffie-Hellman in the group of units
  modulo 23 with generator 5, a public value exported as one byte; a signature that is
  the signer's key in front of the message; a cipher that writes an initialisation byte
  and both keys in front of the plaintext and checks the keys when it decrypts; a pair
  encoded with the length of its first component in front. The random sources are a
  finite list of numbers, read from the front, as a \<open>bytes.Reader\<close> assigned to \<open>PRNG\<close>
  would be. This \<open>SharedKey\<close> reads its two pointers without testing them, so a nil
  pointer is a panic; \<open>toy_SharedKey_checked\<close> is the variant that tests the public
  key first and returns an error.
\<close>

definition toy_p :: nat where "toy_p = 23"
definition toy_g :: nat where "toy_g = 5"

definition toy_GenerateKey :: "nat list \<Rightarrow> (error + nat) \<times> nat list" where
  "toy_GenerateKey w = (case w of [] \<Rightarrow> (Inl (Error ''EOF''), []) | x # w' \<Rightarrow> (Inr x, w'))"

definition toy_Export :: "nat \<Rightarrow> bytes" where
  "toy_Export x = [of_nat (toy_g ^ x mod toy_p)]"

definition toy_ImportPublic :: "bytes \<Rightarrow> error + nat" where
  "toy_ImportPublic bs = (case bs of [b] \<Rightarrow> Inr (unat b) | _ \<Rightarrow> Inl (Error ''invalid public key''))"

definition toy_SharedKey :: "nat list \<Rightarrow> nat option \<Rightarrow> nat option \<Rightarrow> nat \<Rightarrow> bytes outcome \<times> nat list" where
  "toy_SharedKey w prv pub n =
     (case prv of None \<Rightarrow> (Panic, w)
      | Some x \<Rightarrow> (case pub of None \<Rightarrow> (Panic, w)
          | Some a \<Rightarrow> (Ok (replicate n (of_nat (a ^ x mod toy_p))), w)))"

definition toy_Sign :: "nat list \<Rightarrow> nat \<Rightarrow> bytes \<Rightarrow> (error + bytes) \<times> nat list" where
  "toy_Sign w k m = (Inr (of_nat k # m), w)"

definition toy_Verify :: "nat \<Rightarrow> bytes \<Rightarrow> bytes \<Rightarrow> error option" where
  "toy_Verify k m sig = (if sig = of_nat k # m then None else Some (Error ''verification failed''))"

definition toy_Encrypt :: "nat list \<Rightarrow> bytes \<Rightarrow> bytes \<Rightarrow> bytes \<Rightarrow> (error + bytes) \<times> nat list" where
  "toy_Encrypt w symkey mackey m =
     (case w of [] \<Rightarrow> (Inl (Error ''EOF''), [])
      | iv # w' \<Rightarrow> (Inr (of_nat iv # symkey @ mackey @ m), w'))"

definition toy_Decrypt :: "bytes \<Rightarrow> bytes \<Rightarrow> bytes \<Rightarrow> error + bytes" where
  "toy_Decrypt symkey mackey ct =
     (case ct of [] \<Rightarrow> Inl (Error ''invalid ciphertext'')
      | iv # body \<Rightarrow>
          (if take (length (symkey @ mackey)) body = symkey @ mackey
           then Inr (drop (length (symkey @ mackey)) body)
           else Inl (Error ''invalid tag'')))"

definition toy_Marshal :: "bytes \<times> bytes \<Rightarrow> error + bytes" where
  "toy_Marshal x = (case x of (a, b) \<Rightarrow>
     (if length a < 256 then Inr (of_nat (length a) # a @ b) else Inl (Error ''too long'')))"

definition toy_Unmarshal :: "bytes \<Rightarrow> error + bytes \<times> bytes" where
  "toy_Unmarshal bs = (case bs of [] \<Rightarrow> Inl (Error ''truncated'')
     | l # rest \<Rightarrow> (if unat l \<le> length rest then Inr (take (unat l) rest, drop (unat l) rest)
                    else Inl (Error ''truncated'')))"

definition toy :: "(nat list, nat, nat, nat, nat) collab" where
  "toy = \<lparr>dh_GenerateKey = toy_GenerateKey, dh_Export = toy_Export,
          dh_ImportPublic = toy_ImportPublic, dh_SharedKey = toy_SharedKey,
          pks_Sign = toy_Sign, pks_Verify = toy_Verify,
          authsym_Encrypt = toy_Encrypt, authsym_Decrypt = toy_Decrypt,
          authsym_SymKeyLen = 16,
          asn1_Marshal = toy_Marshal, asn1_Unmarshal = toy_Unmarshal\<rparr>"

text \<open>
  Two identities, with RSA keys 7 and 9, and the sessions they create from the random
  values 3 and 4: as \<open>NewSessionKey\<close> returns them, and after each has accepted the
  other's signed key. Then three envelopes that \<open>Encrypt\<close> produces.
\<close>

definition toy_A0 :: "(nat, nat) SessionKey" where
  "toy_A0 = \<lparr>key = Some 3, signedKey = [1, 10, 7, 10], peer = None\<rparr>"
definition toy_B0 :: "(nat, nat) SessionKey" where
  "toy_B0 = \<lparr>key = Some 4, signedKey = [1, 4, 9, 4], peer = None\<rparr>"
definition toy_A :: "(nat, nat) SessionKey" where
  "toy_A = toy_A0\<lparr>peer := Some 4\<rparr>"
definition toy_B :: "(nat, nat) SessionKey" where
  "toy_B = toy_B0\<lparr>peer := Some 10\<rparr>"

definition toy_envA :: bytes where
  "toy_envA = 1 # 8 # 2 # replicate 16 2 @ replicate 32 2 @ [1, 2, 3]"
definition toy_envA2 :: bytes where
  "toy_envA2 = 1 # 17 # 2 # replicate 16 8 @ replicate 32 8 @ [1, 2, 3]"
definition toy_envB :: bytes where
  "toy_envB = 1 # 20 # 1 # replicate 16 19 @ replicate 32 19 @ [4, 5]"


text \<open>
  The DER encoding of a \<open>SubjectPublicKeyInfo\<close> that holds an ECDSA key on the curve
  P-256 (the base point of the curve, the public key of the private key 1), and the value
  of \<open>x509.ParsePKIXPublicKey\<close> at this input: an ECDSA public key. At any other input
  \<open>parse_p256\<close> reports an error; only its value at \<open>p256_spki\<close> is used.
\<close>

definition p256_spki :: bytes where
  "p256_spki =
     [0x30, 0x59, 0x30, 0x13, 0x06, 0x07, 0x2a, 0x86, 0x48, 0xce, 0x3d, 0x02, 0x01,
      0x06, 0x08, 0x2a, 0x86, 0x48, 0xce, 0x3d, 0x03, 0x01, 0x07, 0x03, 0x42, 0x00, 0x04,
      0x6b, 0x17, 0xd1, 0xf2, 0xe1, 0x2c, 0x42, 0x47, 0xf8, 0xbc, 0xe6, 0xe5, 0x63, 0xa4,
      0x40, 0xf2, 0x77, 0x03, 0x7d, 0x81, 0x2d, 0xeb, 0x33, 0xa0, 0xf4, 0xa1, 0x39, 0x45,
      0xd8, 0x98, 0xc2, 0x96,
      0x4f, 0xe3, 0x42, 0xe2, 0xfe, 0x1a, 0x7f, 0x9b, 0x8e, 0xe7, 0xeb, 0x4a, 0x7c, 0x0f,
      0x9e, 0x16, 0x2b, 0xce, 0x33, 0x57, 0x6b, 0x31, 0x5e, 0xce, 0xcb, 0xb6, 0x40, 0x68,
      0x37, 0xbf, 0x51, 0xf5]"

definition parse_p256 :: "bytes \<Rightarrow> error + nat pkix_key" where
  "parse_p256 der =
     (if der = p256_spki then Inr ECDSA_PublicKey
      else Inl (Error ''x509: failed to parse public key''))"

section \<open>The comparison loop counts the equal positions\<close>

lemma match_loop_bounds:
  "matched \<le> match_loop a b sz i matched \<and>
   match_loop a b sz i matched \<le> matched + int (sz - i)"
proof (induction a b sz i matched rule: match_loop.induct)
  case (1 a b sz i matched)
  show ?case
  proof (cases "i < sz")
    case True
    have step: "match_loop a b sz i matched =
        match_loop a b sz (Suc i) (matched + ConstantTimeByteEq (a ! i) (b ! i))"
      using True by (subst match_loop.simps) simp
    have c: "0 \<le> ConstantTimeByteEq (a ! i) (b ! i) \<and> ConstantTimeByteEq (a ! i) (b ! i) \<le> 1"
      by (simp add: ConstantTimeByteEq_def)
    have ih: "matched + ConstantTimeByteEq (a ! i) (b ! i)
          \<le> match_loop a b sz (Suc i) (matched + ConstantTimeByteEq (a ! i) (b ! i)) \<and>
        match_loop a b sz (Suc i) (matched + ConstantTimeByteEq (a ! i) (b ! i))
          \<le> matched + ConstantTimeByteEq (a ! i) (b ! i) + int (sz - Suc i)"
      using "1.IH" True by simp
    have sz: "int (sz - i) = int (sz - Suc i) + 1"
      using True by simp
    show ?thesis using step c ih sz by linarith
  next
    case False
    then show ?thesis by (subst match_loop.simps, subst match_loop.simps) simp
  qed
qed

lemma match_loop_full:
  "i \<le> sz \<Longrightarrow>
   (match_loop a b sz i matched = matched + int (sz - i)) =
   (\<forall>j. i \<le> j \<and> j < sz \<longrightarrow> a ! j = b ! j)"
proof (induction a b sz i matched rule: match_loop.induct)
  case (1 a b sz i matched)
  show ?case
  proof (cases "i < sz")
    case True
    let ?c = "ConstantTimeByteEq (a ! i) (b ! i)"
    have step: "match_loop a b sz i matched = match_loop a b sz (Suc i) (matched + ?c)"
      using True by (subst match_loop.simps) simp
    have sz: "int (sz - i) = int (sz - Suc i) + 1"
      using True by simp
    have ih: "(match_loop a b sz (Suc i) (matched + ?c) = matched + ?c + int (sz - Suc i)) =
        (\<forall>j. Suc i \<le> j \<and> j < sz \<longrightarrow> a ! j = b ! j)"
      using "1.IH" True by simp
    have ub: "match_loop a b sz (Suc i) (matched + ?c) \<le> matched + ?c + int (sz - Suc i)"
      using match_loop_bounds by blast
    show ?thesis
    proof (cases "a ! i = b ! i")
      case True
      then have c1: "?c = 1" by (simp add: ConstantTimeByteEq_def)
      have "(\<forall>j. i \<le> j \<and> j < sz \<longrightarrow> a ! j = b ! j) =
            (\<forall>j. Suc i \<le> j \<and> j < sz \<longrightarrow> a ! j = b ! j)"
        using True by (metis Suc_leI le_neq_implies_less Suc_leD)
      then show ?thesis using step sz ih c1 by simp
    next
      case False
      then have c0: "?c = 0" by (simp add: ConstantTimeByteEq_def)
      have "match_loop a b sz i matched \<noteq> matched + int (sz - i)"
        using step sz ub c0 by simp
      moreover have "\<not> (\<forall>j. i \<le> j \<and> j < sz \<longrightarrow> a ! j = b ! j)"
        using False \<open>i < sz\<close> by blast
      ultimately show ?thesis by simp
    qed
  next
    case False
    with "1.prems" have "i = sz" by simp
    then show ?thesis by (subst match_loop.simps) auto
  qed
qed

lemma match_loop_all:
  "(match_loop a b (length a) 0 0 = int (length a) \<and> length a = length b) = (a = b)"
proof -
  have "(match_loop a b (length a) 0 0 = int (length a)) =
        (\<forall>j. j < length a \<longrightarrow> a ! j = b ! j)"
    using match_loop_full [of 0 "length a" a b 0] by simp
  then show ?thesis
    by (auto simp: list_eq_iff_nth_eq)
qed


section \<open>Claims about the challenge/response helper and the password check\<close>


text \<open>
  Claim C10. For every password and salt, \<open>MatchPassword\<close> accepts the key that
  \<open>DeriveKeyWithSalt\<close> derives from them, and for any stored key \<open>MatchPassword\<close> returns
  true exactly when the key derived from the supplied password with the stored salt has
  the length of the stored key and the same bytes.
\<close>

theorem C10_match_password:
  "MatchPassword pbkdf2_Key p (DeriveKeyWithSalt pbkdf2_Key p s) \<and>
   MatchPassword pbkdf2_Key p pk =
     (length (Key (DeriveKeyWithSalt pbkdf2_Key p (Salt pk))) = length (Key pk) \<and>
      Key (DeriveKeyWithSalt pbkdf2_Key p (Salt pk)) = Key pk)"
proof -
  have iff: "MatchPassword pbkdf2_Key p k =
      (Key (DeriveKeyWithSalt pbkdf2_Key p (Salt k)) = Key k)" for k
  proof (cases "length (Key (DeriveKeyWithSalt pbkdf2_Key p (Salt k))) = length (Key k)")
    case True
    then have "MatchPassword pbkdf2_Key p k =
        (match_loop (Key (DeriveKeyWithSalt pbkdf2_Key p (Salt k))) (Key k)
           (length (Key (DeriveKeyWithSalt pbkdf2_Key p (Salt k)))) 0 0
         = int (length (Key (DeriveKeyWithSalt pbkdf2_Key p (Salt k)))))"
      by (simp add: MatchPassword_def Let_def)
    then show ?thesis using match_loop_all True by metis
  next
    case False
    then show ?thesis by (auto simp: MatchPassword_def Let_def)
  qed
  have "Salt (DeriveKeyWithSalt pbkdf2_Key p s) = s"
    by (simp add: DeriveKeyWithSalt_def Let_def)
  then have "MatchPassword pbkdf2_Key p (DeriveKeyWithSalt pbkdf2_Key p s)"
    by (simp add: iff)
  then show ?thesis using iff by auto
qed

section \<open>Reading the operations of \<open>forwardsec\<close> backwards\<close>

lemma NewSessionKey_SomeD:
  assumes "NewSessionKey c idk w = (Some s, w')"
  shows "\<exists>k w1 sig. dh_GenerateKey c w = (Inr k, w1) \<and>
           pks_Sign c w1 (rsa_key idk) (dh_Export c k) = (Inr sig, w') \<and>
           asn1_Marshal c (dh_Export c k, sig) = Inr (signedKey s) \<and>
           s = \<lparr>key = Some k, signedKey = signedKey s, peer = None\<rparr>"
  using assms
  by (auto simp: NewSessionKey_def Let_def new_SessionKey_def split: prod.splits sum.splits)

lemma PeerSessionKey_NoneD:
  assumes "PeerSessionKey c s pid session = (s', None)"
  shows "\<exists>pub sig p. asn1_Unmarshal c session = Inr (pub, sig) \<and>
           pks_Verify c pid pub sig = None \<and>
           dh_ImportPublic c pub = Inr p \<and> s' = s\<lparr>peer := Some p\<rparr>"
  using assms
  by (auto simp: PeerSessionKey_def split: prod.splits sum.splits option.splits)

lemma Encrypt_OkD:
  assumes "Encrypt c s m w = (Ok env, w')"
  shows "\<exists>e w1 shared w2 ct. dh_GenerateKey c w = (Inr e, w1) \<and>
           dh_SharedKey c w1 (Some e) (peer s) sharedKeyLen = (Ok shared, w2) \<and>
           authsym_SymKeyLen c \<le> length shared \<and>
           authsym_Encrypt c w2 (take (authsym_SymKeyLen c) shared)
              (drop (authsym_SymKeyLen c) shared) m = (Inr ct, w') \<and>
           asn1_Marshal c (dh_Export c e, ct) = Inr env"
  using assms
  by (auto simp: Encrypt_def slice_to_def slice_from_def
           split: prod.splits sum.splits option.splits outcome.splits if_splits)

lemma Decrypt_eval:
  assumes "asn1_Unmarshal c inp = Inr (pub, ct)"
    and "dh_ImportPublic c pub = Inr p"
    and "dh_SharedKey c w (key s) (Some p) sharedKeyLen = (Ok shared, w1)"
    and "authsym_SymKeyLen c \<le> length shared"
  shows "Decrypt c s inp w =
           (case authsym_Decrypt c (take (authsym_SymKeyLen c) shared)
                   (drop (authsym_SymKeyLen c) shared) ct of
              Inl err \<Rightarrow> (Err err, w1) | Inr out \<Rightarrow> (Ok out, w1))"
  using assms by (simp add: Decrypt_def slice_to_def slice_from_def)

lemma roundtrip_one_way:
  assumes ct: "collab_contract c"
    and new: "NewSessionKey c idk wb = (Some B0, wb')"
    and keyB: "key B = key B0"
    and hs: "PeerSessionKey c A0 pid (Public B0) = (A, None)"
    and enc: "Encrypt c A m w1 = (Ok env, w2)"
  shows "fst (Decrypt c B env w3) = Ok m"
proof -
  from ct have rt: "asn1_roundtrip c" and ie: "dh_import_export c"
    and ag: "dh_agreement c" and ar: "authsym_roundtrip c"
    by (simp_all add: collab_contract_def)
  from NewSessionKey_SomeD [OF new] obtain b sig where
    mB: "asn1_Marshal c (dh_Export c b, sig) = Inr (signedKey B0)" and
    kB: "key B0 = Some b"
    by (metis SessionKey.select_convs(1))
  from rt mB have uB: "asn1_Unmarshal c (Public B0) = Inr (dh_Export c b, sig)"
    by (simp add: asn1_roundtrip_def Public_def)
  from PeerSessionKey_NoneD [OF hs] uB obtain pb where
    ib: "dh_ImportPublic c (dh_Export c b) = Inr pb" and pA: "peer A = Some pb"
    by auto
  from Encrypt_OkD [OF enc] pA obtain e w1' shared w2' ct' where
    sh: "dh_SharedKey c w1' (Some e) (Some pb) sharedKeyLen = (Ok shared, w2')" and
    len: "authsym_SymKeyLen c \<le> length shared" and
    ae: "authsym_Encrypt c w2' (take (authsym_SymKeyLen c) shared)
           (drop (authsym_SymKeyLen c) shared) m = (Inr ct', w2)" and
    me: "asn1_Marshal c (dh_Export c e, ct') = Inr env"
    by auto
  from rt me have ue: "asn1_Unmarshal c env = Inr (dh_Export c e, ct')"
    by (simp add: asn1_roundtrip_def)
  from ie obtain pe where ipe: "dh_ImportPublic c (dh_Export c e) = Inr pe"
    unfolding dh_import_export_def by blast
  from sh have "fst (dh_SharedKey c w1' (Some e) (Some pb) sharedKeyLen) = Ok shared"
    by simp
  with ag ipe ib have "fst (dh_SharedKey c w3 (Some b) (Some pe) sharedKeyLen) = Ok shared"
    unfolding dh_agreement_def by blast
  then obtain w3' where
    shd: "dh_SharedKey c w3 (key B) (Some pe) sharedKeyLen = (Ok shared, w3')"
    using keyB kB by (cases "dh_SharedKey c w3 (Some b) (Some pe) sharedKeyLen") simp
  from ar ae have ad: "authsym_Decrypt c (take (authsym_SymKeyLen c) shared)
           (drop (authsym_SymKeyLen c) shared) ct' = Inr m"
    unfolding authsym_roundtrip_def by (metis fst_conv)
  show ?thesis
    using Decrypt_eval [OF ue ipe shd len] ad by simp
qed

section \<open>The small instance meets the contracts\<close>

lemma toy_asn1_roundtrip: "asn1_roundtrip toy"
  unfolding asn1_roundtrip_def
  by (auto simp: toy_def toy_Marshal_def toy_Unmarshal_def unat_of_nat split: if_splits)

lemma toy_dh_import_export: "dh_import_export toy"
  by (simp add: dh_import_export_def toy_def toy_Export_def toy_ImportPublic_def)

lemma toy_public_value: "unat (of_nat (toy_g ^ x mod toy_p) :: 8 word) = toy_g ^ x mod toy_p"
proof -
  have "toy_g ^ x mod toy_p < 23" by (simp add: toy_p_def)
  then have "toy_g ^ x mod toy_p < 256" by linarith
  then show ?thesis by (simp add: unat_of_nat)
qed

lemma toy_dh_agreement: "dh_agreement toy"
proof -
  have comm: "(toy_g ^ b mod toy_p) ^ a mod toy_p = (toy_g ^ a mod toy_p) ^ b mod toy_p" for a b
    by (simp add: power_mod flip: power_mult) (simp add: mult.commute)
  show ?thesis
    unfolding dh_agreement_def
    by (auto simp: toy_def toy_Export_def toy_ImportPublic_def toy_SharedKey_def
                   toy_public_value comm)
qed

lemma toy_authsym_roundtrip: "authsym_roundtrip toy"
  unfolding authsym_roundtrip_def
  by (auto simp: toy_def toy_Encrypt_def toy_Decrypt_def split: list.splits)

lemma toy_contract: "collab_contract toy"
  by (simp add: collab_contract_def toy_asn1_roundtrip toy_dh_import_export
        toy_dh_agreement toy_authsym_roundtrip)

lemmas toy_simps = toy_def toy_GenerateKey_def toy_Export_def toy_ImportPublic_def
  toy_SharedKey_def toy_Sign_def toy_Verify_def toy_Encrypt_def toy_Decrypt_def
  toy_Marshal_def toy_Unmarshal_def toy_p_def toy_g_def
  toy_A0_def toy_B0_def toy_A_def toy_B_def toy_envA_def toy_envB_def

lemma toy_newA: "NewSessionKey toy \<lparr>rsa_key = 7\<rparr> [3] = (Some toy_A0, [])"
  by (simp add: NewSessionKey_def new_SessionKey_def toy_simps)

lemma toy_newB: "NewSessionKey toy \<lparr>rsa_key = 9\<rparr> [4] = (Some toy_B0, [])"
  by (simp add: NewSessionKey_def new_SessionKey_def toy_simps)

lemma toy_peerA: "PeerSessionKey toy toy_A0 9 (Public toy_B0) = (toy_A, None)"
  by (simp add: PeerSessionKey_def Public_def toy_simps)

lemma toy_peerB: "PeerSessionKey toy toy_B0 7 (Public toy_A0) = (toy_B, None)"
  by (simp add: PeerSessionKey_def Public_def toy_simps)

lemma toy_encA: "Encrypt toy toy_A [1, 2, 3] [6, 2] = (Ok toy_envA, [])"
  by (simp add: Encrypt_def sharedKeyLen_def slice_to_def slice_from_def toy_simps)

lemma toy_encB: "Encrypt toy toy_B [4, 5] [5, 1] = (Ok toy_envB, [])"
  by (simp add: Encrypt_def sharedKeyLen_def slice_to_def slice_from_def toy_simps)

section \<open>Claims about \<open>forwardsec\<close>\<close>

text \<open>
  Claim C1. Two sessions \<open>A\<close> and \<open>B\<close> that their identities created with
  \<open>NewSessionKey\<close> and that have each accepted the other's signed export with
  \<open>PeerSessionKey\<close>: whatever \<open>A\<close> encrypts, \<open>B\<close> decrypts to the same message, and the
  other way round. The collaborators are assumed to meet their contracts.
\<close>

theorem C1_roundtrip:
  assumes "collab_contract c"
    and "NewSessionKey c idA wa = (Some A0, wa')"
    and "NewSessionKey c idB wb = (Some B0, wb')"
    and "PeerSessionKey c A0 pubB (Public B0) = (A, None)"
    and "PeerSessionKey c B0 pubA (Public A0) = (B, None)"
    and "Encrypt c A m w1 = (Ok env, w2)"
    and "Encrypt c B m' w1' = (Ok env', w2')"
  shows "fst (Decrypt c B env w3) = Ok m \<and> fst (Decrypt c A env' w3') = Ok m'"
proof -
  from PeerSessionKey_NoneD [OF assms(4)] have kA: "key A = key A0" by auto
  from PeerSessionKey_NoneD [OF assms(5)] have kB: "key B = key B0" by auto
  show ?thesis
    using roundtrip_one_way [OF assms(1) assms(3) kB assms(4) assms(6)]
          roundtrip_one_way [OF assms(1) assms(2) kA assms(5) assms(7)]
    by simp
qed

text \<open>
  The small instance meets the contracts, its two sessions complete the handshake, and
  each decrypts what the other encrypts.
\<close>

theorem C1_roundtrip_witness:
  "collab_contract toy \<and>
   NewSessionKey toy \<lparr>rsa_key = 7\<rparr> [3] = (Some toy_A0, []) \<and>
   NewSessionKey toy \<lparr>rsa_key = 9\<rparr> [4] = (Some toy_B0, []) \<and>
   PeerSessionKey toy toy_A0 9 (Public toy_B0) = (toy_A, None) \<and>
   PeerSessionKey toy toy_B0 7 (Public toy_A0) = (toy_B, None) \<and>
   Encrypt toy toy_A [1, 2, 3] [6, 2] = (Ok toy_envA, []) \<and>
   Encrypt toy toy_B [4, 5] [5, 1] = (Ok toy_envB, []) \<and>
   fst (Decrypt toy toy_B toy_envA []) = Ok [1, 2, 3] \<and>
   fst (Decrypt toy toy_A toy_envB []) = Ok [4, 5]"
  using C1_roundtrip [OF toy_contract toy_newA toy_newB toy_peerA toy_peerB toy_encA toy_encB,
      of "[]" "[]"]
    toy_contract toy_newA toy_newB toy_peerA toy_peerB toy_encA toy_encB
  by simp

text \<open>
  Claim C3. When the input decodes and the signature does not verify against the peer's
  identity, \<open>PeerSessionKey\<close> returns the error of \<open>pks.Verify\<close> and the session as it
  was, \<open>peer\<close> included. It does not call \<open>ImportPublic\<close>: the result is the same
  whatever function \<open>imp\<close> stands in its place.
\<close>

theorem C3_bad_signature:
  assumes "asn1_Unmarshal c session = Inr (pub, sig)"
    and "pks_Verify c peerId pub sig = Some err"
  shows "PeerSessionKey (c\<lparr>dh_ImportPublic := imp\<rparr>) skey peerId session = (skey, Some err)"
  using assms by (simp add: PeerSessionKey_def)

text \<open>
  A key signed by identity 7 and presented as coming from identity 9 is rejected.
\<close>

theorem C3_bad_signature_witness:
  "asn1_Unmarshal toy [1, 4, 7, 4] = Inr ([4], [7, 4]) \<and>
   pks_Verify toy 9 [4] [7, 4] = Some (Error ''verification failed'') \<and>
   PeerSessionKey (toy\<lparr>dh_ImportPublic := (\<lambda>b. Inr 0)\<rparr>) toy_A0 9 [1, 4, 7, 4]
     = (toy_A0, Some (Error ''verification failed''))"
proof -
  have u: "asn1_Unmarshal toy [1, 4, 7, 4] = Inr ([4], [7, 4])"
    by (simp add: toy_simps)
  have v: "pks_Verify toy 9 [4] [7, 4] = Some (Error ''verification failed'')"
    by (simp add: toy_simps)
  show ?thesis using C3_bad_signature [OF u v, of "\<lambda>b. Inr 0" toy_A0] u v by simp
qed




text \<open>
  Claim C5 fails on the code. An input that decodes to a DSA or an ECDSA key makes
  \<open>ImportPeerIdentity\<close> panic in its type assertion; it returns nil only for a nil
  input and for an input that does not decode.
\<close>

theorem C5_non_rsa_key_panics:
  assumes "parse der = Inr cert" and "cert = DSA_PublicKey \<or> cert = ECDSA_PublicKey"
  shows "ImportPeerIdentity parse (Some der) = Panic"
  using assms by (auto simp: ImportPeerIdentity_def)

theorem C5_non_rsa_key_panics_witness:
  "parse_p256 p256_spki = Inr ECDSA_PublicKey \<and>
   ImportPeerIdentity parse_p256 (Some p256_spki) = Panic"
proof -
  have p: "parse_p256 p256_spki = Inr ECDSA_PublicKey" by (simp add: parse_p256_def)
  show ?thesis using C5_non_rsa_key_panics [of parse_p256 p256_spki ECDSA_PublicKey] p by simp
qed

text \<open>
  Claim C6, as stated, fails: the ephemeral key pair is as fresh as the random source.
  When the source yields the same values again, two calls of \<open>Encrypt\<close> with the same
  message on the same session return the same envelope, with the same public value.
\<close>

theorem C6_repeated_randomness_counterexample:
  "Encrypt toy toy_A [1, 2, 3] [6, 2, 6, 2] = (Ok toy_envA, [6, 2]) \<and>
   Encrypt toy toy_A [1, 2, 3] [6, 2] = (Ok toy_envA, [])"
  by (simp add: Encrypt_def sharedKeyLen_def slice_to_def slice_from_def toy_simps)

text \<open>
  Claim C6, amended. Two calls of \<open>Encrypt\<close> with the same message on the same session
  whose freshly generated key pairs export distinct public values return different
  envelopes, each carrying the public value of its own key pair.
\<close>

theorem C6_distinct_ephemeral_keys:
  assumes rt: "asn1_roundtrip c"
    and e1: "Encrypt c skey m w = (Ok env1, w')"
    and e2: "Encrypt c skey m v = (Ok env2, v')"
    and g1: "fst (dh_GenerateKey c w) = Inr k1"
    and g2: "fst (dh_GenerateKey c v) = Inr k2"
    and ne: "dh_Export c k1 \<noteq> dh_Export c k2"
  shows "env1 \<noteq> env2 \<and>
         (\<exists>ct1 ct2. asn1_Unmarshal c env1 = Inr (dh_Export c k1, ct1) \<and>
                     asn1_Unmarshal c env2 = Inr (dh_Export c k2, ct2))"
proof -
  from Encrypt_OkD [OF e1] g1 obtain ct1 where
    m1: "asn1_Marshal c (dh_Export c k1, ct1) = Inr env1" by auto
  from Encrypt_OkD [OF e2] g2 obtain ct2 where
    m2: "asn1_Marshal c (dh_Export c k2, ct2) = Inr env2" by auto
  from rt m1 have u1: "asn1_Unmarshal c env1 = Inr (dh_Export c k1, ct1)"
    by (simp add: asn1_roundtrip_def)
  from rt m2 have u2: "asn1_Unmarshal c env2 = Inr (dh_Export c k2, ct2)"
    by (simp add: asn1_roundtrip_def)
  from u1 u2 ne have "env1 \<noteq> env2" by auto
  with u1 u2 show ?thesis by blast
qed

theorem C6_distinct_ephemeral_keys_witness:
  "asn1_roundtrip toy \<and>
   fst (dh_GenerateKey toy [6, 2, 7, 2]) = Inr 6 \<and>
   fst (dh_GenerateKey toy [7, 2]) = Inr 7 \<and>
   dh_Export toy 6 \<noteq> dh_Export toy 7 \<and>
   Encrypt toy toy_A [1, 2, 3] [6, 2, 7, 2] = (Ok toy_envA, [7, 2]) \<and>
   Encrypt toy toy_A [1, 2, 3] [7, 2] = (Ok toy_envA2, []) \<and>
   toy_envA \<noteq> toy_envA2"
proof -
  have e1: "Encrypt toy toy_A [1, 2, 3] [6, 2, 7, 2] = (Ok toy_envA, [7, 2])"
    by (simp add: Encrypt_def sharedKeyLen_def slice_to_def slice_from_def toy_simps)
  have e2: "Encrypt toy toy_A [1, 2, 3] [7, 2]
      = (Ok toy_envA2, [])"
    by (simp add: Encrypt_def sharedKeyLen_def slice_to_def slice_from_def toy_simps toy_envA2_def)
  have g1: "fst (dh_GenerateKey toy [6, 2, 7, 2]) = Inr 6" by (simp add: toy_simps)
  have g2: "fst (dh_GenerateKey toy [7, 2]) = Inr 7" by (simp add: toy_simps)
  have ne: "dh_Export toy 6 \<noteq> dh_Export toy 7" by (simp add: toy_simps)
  show ?thesis
    using C6_distinct_ephemeral_keys [OF toy_asn1_roundtrip e1 e2 g1 g2 ne]
      toy_asn1_roundtrip e1 e2 g1 g2 ne
    by simp
qed

text \<open>
  Claim C7, as stated, fails: \<open>NewSessionKey\<close> has no error result. A failure of key
  generation, of signing and of the encoding of the signed key all return the same nil.
\<close>

theorem C7_nil_on_failure_counterexample:
  "NewSessionKey toy \<lparr>rsa_key = 7\<rparr> [] = (None, []) \<and>
   NewSessionKey (toy\<lparr>pks_Sign := (\<lambda>w k m. (Inl (Error ''signing failed''), w))\<rparr>)
      \<lparr>rsa_key = 7\<rparr> [3] = (None, []) \<and>
   NewSessionKey (toy\<lparr>asn1_Marshal := (\<lambda>x. Inl (Error ''asn1: structure error''))\<rparr>)
      \<lparr>rsa_key = 7\<rparr> [3] = (None, [])"
  by (simp add: NewSessionKey_def new_SessionKey_def toy_simps)

text \<open>
  Claim C7, amended. \<open>NewSessionKey\<close> returns nil, when key generation, signing or the
  encoding of the signed key fails, or else a session that holds the generated key, the
  encoding of its exported public value with the identity's signature over it, and no
  peer. Nothing in between is returned.
\<close>

theorem C7_all_or_nothing:
  "(\<exists>w'. NewSessionKey c idk w = (None, w') \<and>
      ((\<exists>err. dh_GenerateKey c w = (Inl err, w')) \<or>
       (\<exists>k w1 err. dh_GenerateKey c w = (Inr k, w1) \<and>
          pks_Sign c w1 (rsa_key idk) (dh_Export c k) = (Inl err, w')) \<or>
       (\<exists>k w1 sig err. dh_GenerateKey c w = (Inr k, w1) \<and>
          pks_Sign c w1 (rsa_key idk) (dh_Export c k) = (Inr sig, w') \<and>
          asn1_Marshal c (dh_Export c k, sig) = Inl err))) \<or>
   (\<exists>k w1 sig w' enc. dh_GenerateKey c w = (Inr k, w1) \<and>
      pks_Sign c w1 (rsa_key idk) (dh_Export c k) = (Inr sig, w') \<and>
      asn1_Marshal c (dh_Export c k, sig) = Inr enc \<and>
      NewSessionKey c idk w = (Some \<lparr>key = Some k, signedKey = enc, peer = None\<rparr>, w'))"
proof (cases "dh_GenerateKey c w")
  case (Pair r w1)
  show ?thesis
  proof (cases r)
    case (Inl err)
    with Pair show ?thesis by (simp add: NewSessionKey_def)
  next
    case (Inr k)
    note gen = Pair [unfolded Inr]
    show ?thesis
    proof (cases "pks_Sign c w1 (rsa_key idk) (dh_Export c k)")
      case sign: (Pair r2 w2)
      show ?thesis
      proof (cases r2)
        case (Inl err)
        with gen sign show ?thesis by (simp add: NewSessionKey_def Let_def)
      next
        case sig: (Inr sig)
        show ?thesis
        proof (cases "asn1_Marshal c (dh_Export c k, sig)")
          case (Inl err)
          with gen sign sig show ?thesis by (simp add: NewSessionKey_def Let_def)
        next
          case (Inr enc)
          with gen sign sig show ?thesis
            by (simp add: NewSessionKey_def Let_def new_SessionKey_def)
        qed
      qed
    qed
  qed
qed

text \<open>
  Claim C8. Given a shared secret of \<open>sharedKeyLen\<close> bytes and a \<open>SymKeyLen\<close> that
  does not exceed it, \<open>Encrypt\<close> and \<open>Decrypt\<close> hand the cipher the same two keys: the
  first \<open>SymKeyLen\<close> bytes of the secret and the remaining ones, which together are
  the secret.
\<close>

theorem C8_split_shared_secret:
  assumes len: "length shared = sharedKeyLen"
    and n: "authsym_SymKeyLen c \<le> sharedKeyLen"
    and gen: "dh_GenerateKey c w = (Inr dhEphem, w1)"
    and she: "dh_SharedKey c w1 (Some dhEphem) (peer skey) sharedKeyLen = (Ok shared, w2)"
    and unm: "asn1_Unmarshal c inp = Inr (pub, ct)"
    and imp: "dh_ImportPublic c pub = Inr p"
    and shd: "dh_SharedKey c v (key skey') (Some p) sharedKeyLen = (Ok shared, v1)"
  shows "\<exists>symkey mackey.
           symkey @ mackey = shared \<and>
           length symkey = authsym_SymKeyLen c \<and>
           length mackey = sharedKeyLen - authsym_SymKeyLen c \<and>
           Encrypt c skey m w =
             (case authsym_Encrypt c w2 symkey mackey m of
                (Inl err, w3) \<Rightarrow> (Err err, w3)
              | (Inr ephem_CT, w3) \<Rightarrow>
                  (case asn1_Marshal c (dh_Export c dhEphem, ephem_CT) of
                     Inl err \<Rightarrow> (Err err, w3)
                   | Inr out \<Rightarrow> (Ok out, w3))) \<and>
           Decrypt c skey' inp v =
             (case authsym_Decrypt c symkey mackey ct of
                Inl err \<Rightarrow> (Err err, v1)
              | Inr out \<Rightarrow> (Ok out, v1))"
proof -
  let ?sym = "take (authsym_SymKeyLen c) shared"
  let ?mac = "drop (authsym_SymKeyLen c) shared"
  from len n have le: "authsym_SymKeyLen c \<le> length shared" by simp
  have 1: "?sym @ ?mac = shared" by simp
  have 2: "length ?sym = authsym_SymKeyLen c" using le by simp
  have 3: "length ?mac = sharedKeyLen - authsym_SymKeyLen c" using len by simp
  have 4: "Encrypt c skey m w =
             (case authsym_Encrypt c w2 ?sym ?mac m of
                (Inl err, w3) \<Rightarrow> (Err err, w3)
              | (Inr ephem_CT, w3) \<Rightarrow>
                  (case asn1_Marshal c (dh_Export c dhEphem, ephem_CT) of
                     Inl err \<Rightarrow> (Err err, w3)
                   | Inr out \<Rightarrow> (Ok out, w3)))"
    using gen she le by (simp add: Encrypt_def slice_to_def slice_from_def)
  have 5: "Decrypt c skey' inp v =
             (case authsym_Decrypt c ?sym ?mac ct of
                Inl err \<Rightarrow> (Err err, v1)
              | Inr out \<Rightarrow> (Ok out, v1))"
    using Decrypt_eval [OF unm imp shd le] .
  from 1 2 3 4 5 show ?thesis by blast
qed

theorem C8_split_shared_secret_witness:
  "length (replicate 48 2 :: bytes) = sharedKeyLen \<and>
   authsym_SymKeyLen toy \<le> sharedKeyLen \<and>
   dh_GenerateKey toy [6, 2] = (Inr 6, [2]) \<and>
   dh_SharedKey toy [2] (Some 6) (peer toy_A) sharedKeyLen = (Ok (replicate 48 2), [2]) \<and>
   asn1_Unmarshal toy toy_envA = Inr ([8], 2 # replicate 16 2 @ replicate 32 2 @ [1, 2, 3]) \<and>
   dh_ImportPublic toy [8] = Inr 8 \<and>
   dh_SharedKey toy [] (key toy_B) (Some 8) sharedKeyLen = (Ok (replicate 48 2), []) \<and>
   (\<exists>symkey mackey.
      symkey @ mackey = replicate 48 2 \<and>
      length symkey = authsym_SymKeyLen toy \<and>
      length mackey = sharedKeyLen - authsym_SymKeyLen toy \<and>
      Encrypt toy toy_A [1, 2, 3] [6, 2] =
        (case authsym_Encrypt toy [2] symkey mackey [1, 2, 3] of
           (Inl err, w3) \<Rightarrow> (Err err, w3)
         | (Inr ephem_CT, w3) \<Rightarrow>
             (case asn1_Marshal toy (dh_Export toy 6, ephem_CT) of
                Inl err \<Rightarrow> (Err err, w3)
              | Inr out \<Rightarrow> (Ok out, w3))) \<and>
      Decrypt toy toy_B toy_envA [] =
        (case authsym_Decrypt toy symkey mackey (2 # replicate 16 2 @ replicate 32 2 @ [1, 2, 3]) of
           Inl err \<Rightarrow> (Err err, [])
         | Inr out \<Rightarrow> (Ok out, [])))"
proof -
  have len: "length (replicate 48 2 :: bytes) = sharedKeyLen" by (simp add: sharedKeyLen_def)
  have n: "authsym_SymKeyLen toy \<le> sharedKeyLen" by (simp add: sharedKeyLen_def toy_def)
  have gen: "dh_GenerateKey toy [6, 2] = (Inr 6, [2])" by (simp add: toy_simps)
  have she: "dh_SharedKey toy [2] (Some 6) (peer toy_A) sharedKeyLen = (Ok (replicate 48 2), [2])"
    by (simp add: sharedKeyLen_def toy_simps)
  have unm: "asn1_Unmarshal toy toy_envA
      = Inr ([8], 2 # replicate 16 2 @ replicate 32 2 @ [1, 2, 3])"
    by (simp add: toy_simps)
  have imp: "dh_ImportPublic toy [8] = Inr 8" by (simp add: toy_simps)
  have shd: "dh_SharedKey toy [] (key toy_B) (Some 8) sharedKeyLen = (Ok (replicate 48 2), [])"
    by (simp add: sharedKeyLen_def toy_simps)
  show ?thesis
    using C8_split_shared_secret [OF len n gen she unm imp shd, of "[1, 2, 3]"]
      len n gen she unm imp shd
    by simp
qed

end
